theory Spec2Isabelle
  imports Main
begin

section \<open>The stored rows\<close>

text \<open>
  The repository holds two servers over the same two tables: the Express server
  (\<open>server.js\<close> with the prepared statements \<open>stmts\<close> of \<open>db.js\<close>) and the Next.js routes
  (\<open>app/api/qr/route.js\<close>, \<open>app/api/qr/[code]/route.js\<close>, the redirect route \<open>GET /r/[code]\<close>,
  with the functions of \<open>lib/db.js\<close>). A row of \<open>qr_codes\<close> is a record with the columns the statements
  read or write; the autoincrement \<open>id\<close> is never read by a handler and is left out.
  \<open>is_active\<close> is the integer column with default 1 that the statements only ever set to 0:
  \<open>True\<close> stands for 1 and \<open>False\<close> for 0. \<open>scan_count\<close> is an unbounded integer (the 64-bit
  bound of SQLite is out of reach of a counter that grows by one per request). The
  \<open>qr_codes\<close> table of \<open>lib/db.js\<close> has no \<open>last_scanned_at\<close> column: there the field stays
  \<open>None\<close> and no function touches it. A JavaScript string is a \<open>string\<close> whose characters
  stand for its code units, so \<open>length\<close> is \<open>.length\<close>.
\<close>

record qr_code =
  short_code :: string
  destination_url :: string
  user_id :: "int option"
  scan_count :: int
  created_at :: string
  last_scanned_at :: "string option"
  expires_at :: "string option"
  password :: "string option"
  is_active :: bool

record user_row =
  id_users :: int
  email :: string
  plan :: string

text \<open>
  The state of a server: the two tables, and the number of calls of \<open>nanoid\<close> made so far
  (the position in the stream of random codes).
\<close>

record server =
  qr_codes :: "qr_code list"
  users :: "user_row list"
  draws :: nat

section \<open>What the handlers take from outside the repository\<close>

text \<open>
  The clock, the platform's parsers, bcrypt and the random source are parameters:
  \<^item> \<open>Date_now\<close> is the time value of \<open>new Date()\<close>, in milliseconds;
  \<^item> \<open>datetime_now\<close> is what SQLite's \<open>datetime('now')\<close> (and \<open>CURRENT_TIMESTAMP\<close>) gives;
  \<^item> \<open>Date_parse t\<close> is the time value of \<open>new Date(t)\<close>, \<open>None\<close> for an invalid date
    (whose comparisons are all false);
  \<^item> \<open>URL_protocol u\<close> is the \<open>protocol\<close> of \<open>new URL(u)\<close>, \<open>None\<close> when the constructor throws;
  \<^item> \<open>compareSync\<close> and \<open>hashSync\<close> are bcrypt's, the latter with the salt of this request;
  \<^item> \<open>nanoid n\<close> is the code the \<open>n\<close>-th call of \<open>nanoid(8)\<close> returns;
  \<^item> \<open>BASE_URL\<close> is the configured base of the short links;
  \<^item> \<open>foreign_keys\<close> says whether the libSQL connection of \<open>lib/db.js\<close> enforces foreign
    keys (a setting of the database it connects to).
\<close>

record env =
  Date_now :: int
  datetime_now :: string
  Date_parse :: "string \<Rightarrow> int option"
  URL_protocol :: "string \<Rightarrow> string option"
  compareSync :: "string \<Rightarrow> string \<Rightarrow> bool"
  hashSync :: "string \<Rightarrow> string"
  nanoid :: "nat \<Rightarrow> string"
  BASE_URL :: string
  foreign_keys :: bool

section \<open>Requests and responses\<close>

text \<open>
  The bearer token of a request: absent, present but rejected by \<open>jwt.verify\<close>, or verified
  with the \<open>id\<close> of its payload (tokens are signed with the numeric row id of a user).
\<close>

datatype auth = NoBearer | BadToken | Verified int

text \<open>
  \<open>req.query.pw\<close> of the Express server: \<open>undefined\<close> when the parameter is absent, a
  string when it is given once (\<open>?pw=x\<close>, also the empty \<open>?pw=\<close>), and an array or object
  when it is repeated or indexed (\<open>?pw=a&pw=b\<close>, \<open>?pw[k]=a\<close>). The Next.js route reads
  \<open>url.searchParams.get('pw')\<close>, which is \<open>null\<close> or a string (the first value).
\<close>

datatype query_value = Absent | Str string | Structured

text \<open>
  The plan limits are JavaScript numbers: a finite count or \<open>Infinity\<close>. \<open>PLAN_LIMITS\<close> is an
  object literal, so a plan named like a member of \<open>Object.prototype\<close> reads that member: a
  function or object, which is truthy and compares as \<open>NaN\<close>.
\<close>

datatype js_limit = Num nat | Infinity | Inherited

datatype target = Path string | Url string

datatype payload =
    ErrorJson string
  | UpgradeJson js_limit
  | CreatedJson string string string int
  | UpdatedJson string string
  | MessageJson string

text \<open>
  A response is a file sent with a status, a JSON body with a status, or a redirect with a
  status. \<open>UpgradeJson l\<close> is the body \<open>{error: <text naming l>, upgrade: true}\<close>,
  \<open>CreatedJson c u d t\<close> is \<open>{shortCode: c, shortUrl: u, destinationUrl: d, createdAt: t}\<close>,
  \<open>UpdatedJson c u\<close> is \<open>{message: 'Destination updated', shortCode: c, newUrl: u}\<close>.
  \<open>Path p\<close> is \<open>new URL(p, request.url)\<close>: a page of the site itself.
\<close>

datatype response =
    SendFile nat string
  | Json nat payload
  | Redirect nat target

section \<open>The statements of the data layer\<close>

text \<open>
  SQL's \<open>=\<close> on a nullable column and a bound parameter: a comparison with \<open>NULL\<close> is never
  true.
\<close>

fun sql_eq :: "'a option \<Rightarrow> 'a option \<Rightarrow> bool" where
  "sql_eq (Some a) (Some b) = (a = b)"
| "sql_eq _ _ = False"

text \<open>
  \<open>SELECT * FROM qr_codes WHERE short_code = ? AND is_active = 1\<close>, first row
  (\<open>stmts.findByCode\<close> of \<open>db.js\<close> and \<open>findByCode\<close> of \<open>lib/db.js\<close>).
\<close>

definition findByCode :: "qr_code list \<Rightarrow> string \<Rightarrow> qr_code option" where
  "findByCode tbl code = find (\<lambda>r. short_code r = code \<and> is_active r) tbl"

text \<open>\<open>SELECT ... FROM qr_codes WHERE short_code = ?\<close>, first row (\<open>getStats\<close> in both).\<close>

definition getStats :: "qr_code list \<Rightarrow> string \<Rightarrow> qr_code option" where
  "getStats tbl code = find (\<lambda>r. short_code r = code) tbl"

text \<open>
  \<open>stmts.incrementScan\<close> of \<open>db.js\<close>:
  \<open>UPDATE qr_codes SET scan_count = scan_count + 1, last_scanned_at = datetime('now')
  WHERE short_code = ?\<close>. Its \<open>run\<close> returns the number of rows changed (\<open>changes\<close>),
  here with the table.
\<close>

definition stmts_incrementScan ::
  "string \<Rightarrow> qr_code list \<Rightarrow> string \<Rightarrow> nat \<times> qr_code list" where
  "stmts_incrementScan now tbl code =
     (length (filter (\<lambda>r. short_code r = code) tbl),
      map (\<lambda>r. if short_code r = code
               then r\<lparr>scan_count := scan_count r + 1, last_scanned_at := Some now\<rparr>
               else r) tbl)"

text \<open>
  \<open>incrementScan\<close> of \<open>lib/db.js\<close>:
  \<open>UPDATE qr_codes SET scan_count = scan_count + 1 WHERE short_code = ?\<close>. The function
  returns nothing: the result of \<open>db.execute\<close> is dropped.
\<close>

definition incrementScan :: "qr_code list \<Rightarrow> string \<Rightarrow> qr_code list" where
  "incrementScan tbl code =
     map (\<lambda>r. if short_code r = code then r\<lparr>scan_count := scan_count r + 1\<rparr> else r) tbl"

text \<open>
  \<open>stmts.countUserQRs\<close> of \<open>db.js\<close>: \<open>SELECT COUNT(*) as count FROM qr_codes WHERE user_id = ?\<close>.
\<close>

definition stmts_countUserQRs :: "qr_code list \<Rightarrow> int option \<Rightarrow> nat" where
  "stmts_countUserQRs tbl userId = length (filter (\<lambda>r. sql_eq (user_id r) userId) tbl)"

text \<open>
  \<open>countUserQRs\<close> of \<open>lib/db.js\<close>:
  \<open>SELECT COUNT(*) as count FROM qr_codes WHERE user_id = ? AND is_active = 1\<close>.
\<close>

definition countUserQRs :: "qr_code list \<Rightarrow> int option \<Rightarrow> nat" where
  "countUserQRs tbl userId =
     length (filter (\<lambda>r. sql_eq (user_id r) userId \<and> is_active r) tbl)"

text \<open>
  \<open>UPDATE qr_codes SET destination_url = ? WHERE short_code = ? AND user_id = ?\<close>
  (the same statement in \<open>db.js\<close> and \<open>lib/db.js\<close>): the number of rows changed, and the table.
\<close>

definition updateDestination ::
  "qr_code list \<Rightarrow> string \<Rightarrow> string \<Rightarrow> int option \<Rightarrow> nat \<times> qr_code list" where
  "updateDestination tbl url code userId =
     (length (filter (\<lambda>r. short_code r = code \<and> sql_eq (user_id r) userId) tbl),
      map (\<lambda>r. if short_code r = code \<and> sql_eq (user_id r) userId
               then r\<lparr>destination_url := url\<rparr> else r) tbl)"

text \<open>
  \<open>UPDATE qr_codes SET is_active = 0 WHERE short_code = ? AND user_id = ?\<close>
  (the same statement in both).
\<close>

definition deleteQR :: "qr_code list \<Rightarrow> string \<Rightarrow> int option \<Rightarrow> nat \<times> qr_code list" where
  "deleteQR tbl code userId =
     (length (filter (\<lambda>r. short_code r = code \<and> sql_eq (user_id r) userId) tbl),
      map (\<lambda>r. if short_code r = code \<and> sql_eq (user_id r) userId
               then r\<lparr>is_active := False\<rparr> else r) tbl)"

text \<open>
  \<open>INSERT INTO qr_codes (short_code, destination_url, user_id, expires_at, password)
  VALUES (?, ?, ?, ?, ?)\<close>: the other columns take their defaults. \<open>short_code\<close> is
  \<open>UNIQUE\<close>: inserting a code that some row already has (active or not) throws, and the
  table is unchanged. \<open>user_id\<close> references \<open>users(id)\<close>: where foreign keys are enforced
  (\<open>fk\<close>), inserting a non-null owner that no user row carries throws as well. better-sqlite3
  opens its database with foreign keys on, so \<open>db.js\<close> always enforces them; for
  \<open>lib/db.js\<close> it is the connection's setting. \<open>us\<close> is the \<open>users\<close> table.
\<close>

datatype sql_error = SQLITE_CONSTRAINT_UNIQUE | SQLITE_CONSTRAINT_FOREIGNKEY

definition owner_missing :: "user_row list \<Rightarrow> int option \<Rightarrow> bool" where
  "owner_missing us userId =
     (case userId of None \<Rightarrow> False | Some i \<Rightarrow> i \<notin> set (map id_users us))"

definition createQR ::
  "bool \<Rightarrow> user_row list \<Rightarrow> string \<Rightarrow> qr_code list \<Rightarrow> string \<Rightarrow> string \<Rightarrow> int option
    \<Rightarrow> string option \<Rightarrow> string option \<Rightarrow> sql_error + qr_code list" where
  "createQR fk us now tbl shortCode url userId expiresAt pw =
     (if shortCode \<in> set (map short_code tbl) then Inl SQLITE_CONSTRAINT_UNIQUE
      else if fk \<and> owner_missing us userId then Inl SQLITE_CONSTRAINT_FOREIGNKEY
      else Inr (tbl @ [\<lparr>short_code = shortCode, destination_url = url, user_id = userId,
                        scan_count = 0, created_at = now, last_scanned_at = None,
                        expires_at = expiresAt, password = pw, is_active = True\<rparr>]))"

text \<open>\<open>SELECT id, email, plan ... FROM users WHERE id = ?\<close>, first row.\<close>

definition findUserById :: "user_row list \<Rightarrow> int \<Rightarrow> user_row option" where
  "findUserById us i = find (\<lambda>u. id_users u = i) us"

section \<open>The redirect handlers\<close>

text \<open>\<open>qr.expires_at && new Date(qr.expires_at) < new Date()\<close>: null and the empty string are falsy.\<close>

fun expires_at_passed :: "env \<Rightarrow> string option \<Rightarrow> bool" where
  "expires_at_passed env None = False"
| "expires_at_passed env (Some t) =
     (t \<noteq> [] \<and> (case Date_parse env t of None \<Rightarrow> False | Some ms \<Rightarrow> ms < Date_now env))"

text \<open>
  Lines 339 to 344 of \<open>server.js\<close>: \<open>if (qr.password) { const providedPw = req.query.pw;
  if (!providedPw || !bcrypt.compareSync(providedPw, qr.password)) ... }\<close>. A stored
  password that is null or empty skips the check. An array or object is truthy and makes
  \<open>bcrypt.compareSync\<close> throw (its arguments must be strings), which the handler's \<open>catch\<close>
  answers.
\<close>

datatype pw_check = Pass | Prompt | Throws

fun express_pw_check :: "env \<Rightarrow> string option \<Rightarrow> query_value \<Rightarrow> pw_check" where
  "express_pw_check env None providedPw = Pass"
| "express_pw_check env (Some h) providedPw =
     (if h = [] then Pass
      else (case providedPw of
              Absent \<Rightarrow> Prompt
            | Str p \<Rightarrow> if p = [] \<or> \<not> compareSync env p h then Prompt else Pass
            | Structured \<Rightarrow> Throws))"

text \<open>
  Lines 73 to 79 of the Next.js redirect route:
  \<open>qr.password && (!providedPw || !bcrypt.compareSync(providedPw, qr.password))\<close>, the
  condition of the two nested \<open>if\<close>s that answer with the password prompt. The supplied
  \<open>pw\<close> is null or a string.
\<close>

fun password_refused :: "env \<Rightarrow> string option \<Rightarrow> string option \<Rightarrow> bool" where
  "password_refused env None providedPw = False"
| "password_refused env (Some h) None = (h \<noteq> [])"
| "password_refused env (Some h) (Some p) = (h \<noteq> [] \<and> (p = [] \<or> \<not> compareSync env p h))"

text \<open>\<open>app.get('/r/:code')\<close> of \<open>server.js\<close>.\<close>

definition express_get_r :: "env \<Rightarrow> server \<Rightarrow> string \<Rightarrow> query_value \<Rightarrow> response \<times> server" where
  "express_get_r env s code providedPw =
     (case findByCode (qr_codes s) code of
        None \<Rightarrow> (SendFile 404 ''index.html'', s)
      | Some qr \<Rightarrow>
          if expires_at_passed env (expires_at qr)
          then (Json 410 (ErrorJson ''This QR code has expired''), s)
          else (case express_pw_check env (password qr) providedPw of
                  Throws \<Rightarrow> (Json 500 (ErrorJson ''Server error''), s)
                | Prompt \<Rightarrow> (SendFile 200 ''password.html'', s)
                | Pass \<Rightarrow>
                    (Redirect 302 (Url (destination_url qr)),
                     s\<lparr>qr_codes :=
                         snd (stmts_incrementScan (datetime_now env) (qr_codes s) code)\<rparr>)))"

text \<open>
  \<open>GET\<close> of the redirect route \<open>/r/[code]\<close>. \<open>NextResponse.redirect\<close> without a status
  answers 307.
\<close>

definition next_GET_r :: "env \<Rightarrow> server \<Rightarrow> string \<Rightarrow> string option \<Rightarrow> response \<times> server" where
  "next_GET_r env s code providedPw =
     (case findByCode (qr_codes s) code of
        None \<Rightarrow> (Redirect 307 (Path ''/''), s)
      | Some qr \<Rightarrow>
          if expires_at_passed env (expires_at qr)
          then (Json 410 (ErrorJson ''This QR code has expired''), s)
          else if password_refused env (password qr) providedPw
          then (Redirect 307 (Path (''/password/'' @ code)), s)
          else (Redirect 302 (Url (destination_url qr)),
                s\<lparr>qr_codes := incrementScan (qr_codes s) code\<rparr>))"

section \<open>The plan limits\<close>

text \<open>
  \<open>const PLAN_LIMITS = { free: 2, pro: 50, business: Infinity }\<close>, read with
  \<open>PLAN_LIMITS[user.plan]\<close>: the three own members, else a member inherited from
  \<open>Object.prototype\<close>, else \<open>undefined\<close>.
\<close>

definition Object_prototype_members :: "string list" where
  "Object_prototype_members =
     [''constructor'', ''__proto__'', ''hasOwnProperty'', ''isPrototypeOf'',
      ''propertyIsEnumerable'', ''toString'', ''toLocaleString'', ''valueOf'',
      ''__defineGetter__'', ''__defineSetter__'', ''__lookupGetter__'', ''__lookupSetter__'']"

definition PLAN_LIMITS :: "string \<Rightarrow> js_limit option" where
  "PLAN_LIMITS k =
     (if k = ''free'' then Some (Num 2)
      else if k = ''pro'' then Some (Num 50)
      else if k = ''business'' then Some Infinity
      else if k \<in> set Object_prototype_members then Some Inherited
      else None)"

text \<open>\<open>PLAN_LIMITS[user.plan] || PLAN_LIMITS.free\<close>: every member is truthy.\<close>

definition limit_of_plan :: "string \<Rightarrow> js_limit" where
  "limit_of_plan p = (case PLAN_LIMITS p of Some l \<Rightarrow> l | None \<Rightarrow> Num 2)"

text \<open>\<open>count >= limit\<close> on JavaScript numbers.\<close>

fun count_ge :: "nat \<Rightarrow> js_limit \<Rightarrow> bool" where
  "count_ge count (Num n) = (n \<le> count)"
| "count_ge count Infinity = False"
| "count_ge count Inherited = False"

section \<open>The creation handlers\<close>

text \<open>
  The JSON body of a creation request. \<open>body_url = None\<close> is a \<open>url\<close> that is missing or not
  a string; \<open>expiresAt\<close> and \<open>password\<close> are missing or strings.
\<close>

record create_body =
  body_url :: "string option"
  body_expiresAt :: "string option"
  body_password :: "string option"

text \<open>\<open>req.user ? req.user.id : null\<close> after \<open>authOptional\<close> (and \<open>getAuthUser\<close>'s id).\<close>

fun userId_of :: "auth \<Rightarrow> int option" where
  "userId_of (Verified i) = Some i"
| "userId_of _ = None"

text \<open>\<open>v || null\<close> and the test \<open>v ? ... : null\<close> on a value that is missing or a string.\<close>

fun or_null :: "string option \<Rightarrow> string option" where
  "or_null None = None"
| "or_null (Some v) = (if v = [] then None else Some v)"

text \<open>
  Lines 277 to 289 of \<open>server.js\<close>: the plan check, skipped when \<open>userId\<close> is falsy (null or
  0). Reading \<open>user.plan\<close> of a user that is not in the table throws, which the handler's
  \<open>catch\<close> answers with 500. The result is the response that ends the request, if any.
\<close>

definition express_quota :: "server \<Rightarrow> int option \<Rightarrow> response option" where
  "express_quota s userId =
     (case userId of
        None \<Rightarrow> None
      | Some i \<Rightarrow>
          if i = 0 then None
          else (case findUserById (users s) i of
                  None \<Rightarrow> Some (Json 500 (ErrorJson ''Failed to create QR code''))
                | Some user \<Rightarrow>
                    if count_ge (stmts_countUserQRs (qr_codes s) (Some i)) (limit_of_plan (plan user))
                    then Some (Json 403 (UpgradeJson (limit_of_plan (plan user))))
                    else None))"

text \<open>Lines 40 to 54 of \<open>app/api/qr/route.js\<close>: the same check over \<open>countUserQRs\<close> of \<open>lib/db.js\<close>.\<close>

definition next_quota :: "server \<Rightarrow> int option \<Rightarrow> response option" where
  "next_quota s userId =
     (case userId of
        None \<Rightarrow> None
      | Some i \<Rightarrow>
          if i = 0 then None
          else (case findUserById (users s) i of
                  None \<Rightarrow> Some (Json 500 (ErrorJson ''Failed to create QR code''))
                | Some user \<Rightarrow>
                    if count_ge (countUserQRs (qr_codes s) (Some i)) (limit_of_plan (plan user))
                    then Some (Json 403 (UpgradeJson (limit_of_plan (plan user))))
                    else None))"

text \<open>
  Lines 291 to 310 of \<open>server.js\<close> (56 to 74 of \<open>route.js\<close>): one code is drawn, the password
  is hashed if given, the row is inserted. An insert that throws is caught by the handler's
  \<open>catch\<close>. \<open>base\<close> is the base of the short link, \<open>fk\<close> whether the data layer enforces
  foreign keys.
\<close>

definition insert_qr ::
  "bool \<Rightarrow> env \<Rightarrow> server \<Rightarrow> string \<Rightarrow> int option \<Rightarrow> string \<Rightarrow> create_body
    \<Rightarrow> response \<times> server" where
  "insert_qr fk env s base userId u body =
     (let shortCode = nanoid env (draws s);
          s1 = s\<lparr>draws := draws s + 1\<rparr>;
          hashedPw = map_option (hashSync env) (or_null (body_password body))
      in case createQR fk (users s) (datetime_now env) (qr_codes s) shortCode u userId
                (or_null (body_expiresAt body)) hashedPw of
           Inl err \<Rightarrow> (Json 500 (ErrorJson ''Failed to create QR code''), s1)
         | Inr tbl \<Rightarrow>
             (Json 201 (CreatedJson shortCode (base @ ''/r/'' @ shortCode) u (Date_now env)),
              s1\<lparr>qr_codes := tbl\<rparr>))"

text \<open>\<open>app.post('/api/qr', authOptional, ...)\<close> of \<open>server.js\<close>.\<close>

definition express_post_qr :: "env \<Rightarrow> server \<Rightarrow> auth \<Rightarrow> create_body \<Rightarrow> response \<times> server" where
  "express_post_qr env s a body =
     (case body_url body of
        None \<Rightarrow> (Json 400 (ErrorJson ''URL is required''), s)
      | Some u \<Rightarrow>
          if u = [] then (Json 400 (ErrorJson ''URL is required''), s)
          else (case URL_protocol env u of
                  None \<Rightarrow> (Json 400 (ErrorJson ''Invalid URL format''), s)
                | Some p \<Rightarrow>
                    if p \<noteq> ''http:'' \<and> p \<noteq> ''https:''
                    then (Json 400 (ErrorJson ''Only HTTP/HTTPS URLs are allowed''), s)
                    else if length u > 2048
                    then (Json 400 (ErrorJson ''URL too long (max 2048 chars)''), s)
                    else (case express_quota s (userId_of a) of
                            Some refusal \<Rightarrow> (refusal, s)
                          | None \<Rightarrow> insert_qr True env s (BASE_URL env) (userId_of a) u body)))"

text \<open>
  \<open>POST\<close> of \<open>app/api/qr/route.js\<close>. \<open>baseUrl\<close> is the base the handler computes from the
  request's \<open>origin\<close> or \<open>host\<close> header (lines 61 to 63).
\<close>

definition next_POST_qr ::
  "env \<Rightarrow> server \<Rightarrow> string \<Rightarrow> auth \<Rightarrow> create_body \<Rightarrow> response \<times> server" where
  "next_POST_qr env s baseUrl a body =
     (case body_url body of
        None \<Rightarrow> (Json 400 (ErrorJson ''URL is required''), s)
      | Some u \<Rightarrow>
          if u = [] then (Json 400 (ErrorJson ''URL is required''), s)
          else (case URL_protocol env u of
                  None \<Rightarrow> (Json 400 (ErrorJson ''Invalid URL format''), s)
                | Some p \<Rightarrow>
                    if p \<noteq> ''http:'' \<and> p \<noteq> ''https:''
                    then (Json 400 (ErrorJson ''Only HTTP/HTTPS URLs allowed''), s)
                    else if length u > 2048
                    then (Json 400 (ErrorJson ''URL too long (max 2048)''), s)
                    else (case next_quota s (userId_of a) of
                            Some refusal \<Rightarrow> (refusal, s)
                          | None \<Rightarrow>
                              insert_qr (foreign_keys env) env s baseUrl (userId_of a) u body)))"

section \<open>The handlers that change or deactivate a code\<close>

text \<open>
  The part of \<open>app.put('/api/qr/:code')\<close> and of \<open>PUT\<close> in \<open>app/api/qr/[code]/route.js\<close> after
  authentication, the same in both: the new URL must be given and must parse, then the
  update runs for the caller's id. \<open>url = None\<close> is a missing \<open>url\<close>.
\<close>

definition put_qr :: "env \<Rightarrow> server \<Rightarrow> int \<Rightarrow> string \<Rightarrow> string option \<Rightarrow> response \<times> server" where
  "put_qr env s uid code url =
     (case url of
        None \<Rightarrow> (Json 400 (ErrorJson ''New URL is required''), s)
      | Some u \<Rightarrow>
          if u = [] then (Json 400 (ErrorJson ''New URL is required''), s)
          else (case URL_protocol env u of
                  None \<Rightarrow> (Json 400 (ErrorJson ''Invalid URL format''), s)
                | Some p \<Rightarrow>
                    (case updateDestination (qr_codes s) u code (Some uid) of
                       (changes, tbl) \<Rightarrow>
                         if changes = 0
                         then (Json 404 (ErrorJson ''QR code not found or not owned by you''),
                               s\<lparr>qr_codes := tbl\<rparr>)
                         else (Json 200 (UpdatedJson code u), s\<lparr>qr_codes := tbl\<rparr>))))"

text \<open>\<open>app.put('/api/qr/:code', authRequired, ...)\<close> of \<open>server.js\<close>.\<close>

definition express_put_qr ::
  "env \<Rightarrow> server \<Rightarrow> auth \<Rightarrow> string \<Rightarrow> string option \<Rightarrow> response \<times> server" where
  "express_put_qr env s a code url =
     (case a of
        NoBearer \<Rightarrow> (Json 401 (ErrorJson ''Authentication required''), s)
      | BadToken \<Rightarrow> (Json 401 (ErrorJson ''Invalid or expired token''), s)
      | Verified uid \<Rightarrow> put_qr env s uid code url)"

text \<open>\<open>PUT\<close> of \<open>app/api/qr/[code]/route.js\<close>.\<close>

definition next_PUT_qr ::
  "env \<Rightarrow> server \<Rightarrow> auth \<Rightarrow> string \<Rightarrow> string option \<Rightarrow> response \<times> server" where
  "next_PUT_qr env s a code url =
     (case a of
        Verified uid \<Rightarrow> put_qr env s uid code url
      | _ \<Rightarrow> (Json 401 (ErrorJson ''Authentication required''), s))"

text \<open>The part of the two delete handlers after authentication, the same in both.\<close>

definition delete_qr :: "server \<Rightarrow> int \<Rightarrow> string \<Rightarrow> response \<times> server" where
  "delete_qr s uid code =
     (case deleteQR (qr_codes s) code (Some uid) of
        (changes, tbl) \<Rightarrow>
          if changes = 0
          then (Json 404 (ErrorJson ''QR code not found or not owned by you''),
                s\<lparr>qr_codes := tbl\<rparr>)
          else (Json 200 (MessageJson ''QR code deactivated''), s\<lparr>qr_codes := tbl\<rparr>))"

text \<open>\<open>app.delete('/api/qr/:code', authRequired, ...)\<close> of \<open>server.js\<close>.\<close>

definition express_delete_qr :: "server \<Rightarrow> auth \<Rightarrow> string \<Rightarrow> response \<times> server" where
  "express_delete_qr s a code =
     (case a of
        NoBearer \<Rightarrow> (Json 401 (ErrorJson ''Authentication required''), s)
      | BadToken \<Rightarrow> (Json 401 (ErrorJson ''Invalid or expired token''), s)
      | Verified uid \<Rightarrow> delete_qr s uid code)"

text \<open>\<open>DELETE\<close> of \<open>app/api/qr/[code]/route.js\<close>.\<close>

definition next_DELETE_qr :: "server \<Rightarrow> auth \<Rightarrow> string \<Rightarrow> response \<times> server" where
  "next_DELETE_qr s a code =
     (case a of
        Verified uid \<Rightarrow> delete_qr s uid code
      | _ \<Rightarrow> (Json 401 (ErrorJson ''Authentication required''), s))"

section \<open>The resolver's decisions\<close>

text \<open>
  The decisions of the resolver, stated on a stored row and the supplied credential
  independently of the handlers: the four decisions \<open>NOT_FOUND\<close>, \<open>EXPIRED\<close>,
  \<open>PASSWORD_REQUIRED\<close>, \<open>ALLOWED\<close>, checked in this order, and \<open>RESOLUTION_FAILED\<close> for a
  check that throws (the password check on a credential that is not a string).
\<close>

datatype decision = NOT_FOUND | EXPIRED | PASSWORD_REQUIRED | ALLOWED | RESOLUTION_FAILED

text \<open>
  The time at which a row expires: its \<open>expires_at\<close>, when that is set (not null, not empty)
  and the platform reads it as a date. A row is expired when that time lies before now.
\<close>

definition expiry_time :: "env \<Rightarrow> qr_code \<Rightarrow> int option" where
  "expiry_time env r =
     (case expires_at r of
        None \<Rightarrow> None
      | Some t \<Rightarrow> if t = [] then None else Date_parse env t)"

definition expired :: "env \<Rightarrow> qr_code \<Rightarrow> bool" where
  "expired env r = (case expiry_time env r of None \<Rightarrow> False | Some ms \<Rightarrow> ms < Date_now env)"

text \<open>A row has a password when its \<open>password\<close> column holds a non-empty hash.\<close>

definition has_password :: "qr_code \<Rightarrow> bool" where
  "has_password r = (case password r of None \<Rightarrow> False | Some h \<Rightarrow> h \<noteq> [])"

text \<open>A supplied string verifies when it is not empty and bcrypt matches it with the hash.\<close>

definition verifies :: "env \<Rightarrow> qr_code \<Rightarrow> string \<Rightarrow> bool" where
  "verifies env r p =
     (case password r of None \<Rightarrow> False | Some h \<Rightarrow> p \<noteq> [] \<and> compareSync env p h)"

definition decide :: "env \<Rightarrow> qr_code \<Rightarrow> query_value \<Rightarrow> decision" where
  "decide env r cred =
     (if \<not> is_active r then NOT_FOUND
      else if expired env r then EXPIRED
      else if has_password r
      then (case cred of
              Absent \<Rightarrow> PASSWORD_REQUIRED
            | Str p \<Rightarrow> if verifies env r p then ALLOWED else PASSWORD_REQUIRED
            | Structured \<Rightarrow> RESOLUTION_FAILED)
      else ALLOWED)"

text \<open>The credential of the Next.js route as a query value: it is never structured.\<close>

fun param :: "string option \<Rightarrow> query_value" where
  "param None = Absent"
| "param (Some p) = Str p"

text \<open>How each server answers a decision.\<close>

fun express_reply :: "decision \<Rightarrow> qr_code \<Rightarrow> response" where
  "express_reply NOT_FOUND r = SendFile 404 ''index.html''"
| "express_reply EXPIRED r = Json 410 (ErrorJson ''This QR code has expired'')"
| "express_reply PASSWORD_REQUIRED r = SendFile 200 ''password.html''"
| "express_reply ALLOWED r = Redirect 302 (Url (destination_url r))"
| "express_reply RESOLUTION_FAILED r = Json 500 (ErrorJson ''Server error'')"

fun next_reply :: "decision \<Rightarrow> qr_code \<Rightarrow> response" where
  "next_reply NOT_FOUND r = Redirect 307 (Path ''/'')"
| "next_reply EXPIRED r = Json 410 (ErrorJson ''This QR code has expired'')"
| "next_reply PASSWORD_REQUIRED r = Redirect 307 (Path (''/password/'' @ short_code r))"
| "next_reply ALLOWED r = Redirect 302 (Url (destination_url r))"
| "next_reply RESOLUTION_FAILED r = Json 500 (ErrorJson ''Server error'')"



text \<open>The rows of a table that carry another code.\<close>

definition others :: "string \<Rightarrow> qr_code list \<Rightarrow> qr_code list" where
  "others code tbl = filter (\<lambda>r. short_code r \<noteq> code) tbl"

text \<open>The rows of a table that were created without an account.\<close>

definition anonymous_rows :: "qr_code list \<Rightarrow> qr_code list" where
  "anonymous_rows tbl = filter (\<lambda>r. user_id r = None) tbl"

section \<open>A concrete environment and a few tables, for the worked examples\<close>

text \<open>
  An instance of the parameters on the handful of inputs the examples use: the two dates and
  the two URLs are answered as the platform answers them, a hash is its password behind a
  fixed prefix, and the first code drawn is \<open>V1StGXR8\<close>, every later one \<open>k3Jq0-_Z\<close>.
\<close>

definition demo_env :: env where
  "demo_env =
     \<lparr>Date_now = 1700000000000,
      datetime_now = ''2023-11-14 22:13:20'',
      Date_parse = (\<lambda>t. if t = ''2020-01-01'' then Some 1577836800000
                         else if t = ''2030-01-01'' then Some 1893456000000 else None),
      URL_protocol = (\<lambda>u. if u = ''https://example.com/menu'' then Some ''https:''
                           else if u = ''ftp://example.com/menu'' then Some ''ftp:'' else None),
      compareSync = (\<lambda>p h. h = ''$2a$10$'' @ p),
      hashSync = (\<lambda>p. ''$2a$10$'' @ p),
      nanoid = (\<lambda>n. if n = 0 then ''V1StGXR8'' else ''k3Jq0-_Z''),
      BASE_URL = ''http://localhost:3000'',
      foreign_keys = True\<rparr>"

text \<open>An active row of user 1 with a password and an expiry in 2030.\<close>

definition locked_row :: qr_code where
  "locked_row =
     \<lparr>short_code = ''V1StGXR8'', destination_url = ''https://example.com/menu'',
      user_id = Some 1, scan_count = 4, created_at = ''2023-01-01 00:00:00'',
      last_scanned_at = None, expires_at = Some ''2030-01-01'',
      password = Some ''$2a$10$secret123'', is_active = True\<rparr>"

text \<open>A row of user 1 that has been deactivated.\<close>

definition retired_row :: qr_code where
  "retired_row =
     \<lparr>short_code = ''Zx81aaQ_'', destination_url = ''https://example.com/old'',
      user_id = Some 1, scan_count = 7, created_at = ''2022-05-05 10:00:00'',
      last_scanned_at = None, expires_at = None, password = None, is_active = False\<rparr>"

text \<open>A second deactivated row of user 1.\<close>

definition retired_row2 :: qr_code where
  "retired_row2 =
     \<lparr>short_code = ''b7-Qw2Lk'', destination_url = ''https://example.com/older'',
      user_id = Some 1, scan_count = 0, created_at = ''2022-05-04 10:00:00'',
      last_scanned_at = None, expires_at = None, password = None, is_active = False\<rparr>"

text \<open>An active row created without an account.\<close>

definition anonymous_row :: qr_code where
  "anonymous_row =
     \<lparr>short_code = ''m0Nq4rSt'', destination_url = ''https://example.com/flyer'',
      user_id = None, scan_count = 2, created_at = ''2023-02-02 09:30:00'',
      last_scanned_at = None, expires_at = None, password = None, is_active = True\<rparr>"

text \<open>An active row of user 2 with a password, whose expiry in 2020 has passed.\<close>

definition lapsed_row :: qr_code where
  "lapsed_row =
     \<lparr>short_code = ''Qe2-xY7p'', destination_url = ''https://example.com/sale'',
      user_id = Some 2, scan_count = 9, created_at = ''2019-06-01 08:00:00'',
      last_scanned_at = None, expires_at = Some ''2020-01-01'',
      password = Some ''$2a$10$letmein'', is_active = True\<rparr>"

definition demo_users :: "user_row list" where
  "demo_users =
     [\<lparr>id_users = 1, email = ''owner@example.com'', plan = ''free''\<rparr>,
      \<lparr>id_users = 2, email = ''shop@example.com'', plan = ''pro''\<rparr>]"

definition demo_server :: server where
  "demo_server =
     \<lparr>qr_codes = [locked_row, retired_row, anonymous_row, lapsed_row], users = demo_users,
      draws = 0\<rparr>"

text \<open>The tables of a free user whose two codes are both deactivated.\<close>

definition retired_server :: server where
  "retired_server = \<lparr>qr_codes = [retired_row, retired_row2], users = demo_users, draws = 0\<rparr>"

text \<open>A creation request whose password is the empty string.\<close>

definition demo_body :: create_body where
  "demo_body =
     \<lparr>body_url = Some ''https://example.com/menu'', body_expiresAt = None,
      body_password = Some []\<rparr>"

text \<open>The same request with an expiry in 2020.\<close>

definition past_body :: create_body where
  "past_body =
     \<lparr>body_url = Some ''https://example.com/menu'', body_expiresAt = Some ''2020-01-01'',
      body_password = Some []\<rparr>"

section \<open>Lookups in a table with unique codes\<close>

text \<open>
  \<open>short_code\<close> is a \<open>UNIQUE\<close> column, so the codes of a table are distinct; the last section
  shows that every statement and handler keeps them so. In such a table a lookup by the
  code of a stored row finds that row.
\<close>

lemma find_unique_code:
  "distinct (map short_code tbl) \<Longrightarrow> r \<in> set tbl \<Longrightarrow>
   find (\<lambda>x. short_code x = short_code r \<and> P x) tbl = (if P r then Some r else None)"
proof (induction tbl)
  case Nil
  then show ?case by simp
next
  case (Cons a tbl)
  show ?case
  proof (cases "a = r")
    case True
    have "find (\<lambda>x. short_code x = short_code r \<and> P x) tbl = None" if "\<not> P r"
      using Cons.prems(1) True that by (auto simp: find_None_iff image_iff)
    then show ?thesis using True by simp
  next
    case False
    then have "r \<in> set tbl" using Cons.prems(2) by simp
    moreover have "short_code a \<noteq> short_code r"
      using Cons.prems(1) \<open>r \<in> set tbl\<close> by auto
    ultimately show ?thesis using Cons by simp
  qed
qed

lemma findByCode_member:
  "distinct (map short_code tbl) \<Longrightarrow> r \<in> set tbl \<Longrightarrow>
   findByCode tbl (short_code r) = (if is_active r then Some r else None)"
  unfolding findByCode_def by (rule find_unique_code)

lemma findByCode_absent:
  "code \<notin> set (map short_code tbl) \<Longrightarrow> findByCode tbl code = None"
  unfolding findByCode_def by (auto simp: find_None_iff)


lemmas demo_defs = demo_env_def demo_server_def locked_row_def retired_row_def
  retired_row2_def anonymous_row_def lapsed_row_def demo_users_def retired_server_def
  demo_body_def past_body_def

section \<open>The scan counter under the two increment statements\<close>

lemma stmts_incrementScan_member:
  "distinct (map short_code tbl) \<Longrightarrow> r \<in> set tbl \<Longrightarrow>
   fst (stmts_incrementScan now tbl (short_code r)) = 1
   \<and> getStats (snd (stmts_incrementScan now tbl (short_code r))) (short_code r) =
       Some (r\<lparr>scan_count := scan_count r + 1, last_scanned_at := Some now\<rparr>)"
  unfolding getStats_def stmts_incrementScan_def
  by (induction tbl) (auto simp: image_iff filter_empty_conv)

lemma getStats_incrementScan:
  "distinct (map short_code tbl) \<Longrightarrow> r \<in> set tbl \<Longrightarrow>
   getStats (incrementScan tbl (short_code r)) (short_code r) =
     Some (r\<lparr>scan_count := scan_count r + 1\<rparr>)"
  unfolding getStats_def incrementScan_def
  by (induction tbl) (auto simp: image_iff)

lemma others_stmts_incrementScan:
  "others code (snd (stmts_incrementScan now tbl code)) = others code tbl"
  unfolding others_def stmts_incrementScan_def by (induction tbl) auto

lemma others_incrementScan:
  "others code (incrementScan tbl code) = others code tbl"
  unfolding others_def incrementScan_def by (induction tbl) auto

lemma stmts_incrementScan_absent:
  "code \<notin> set (map short_code tbl) \<Longrightarrow> stmts_incrementScan now tbl code = (0, tbl)"
  unfolding stmts_incrementScan_def by (induction tbl) auto

lemma incrementScan_absent:
  "code \<notin> set (map short_code tbl) \<Longrightarrow> incrementScan tbl code = tbl"
  unfolding incrementScan_def by (induction tbl) auto

section \<open>The handlers' tests and the decisions\<close>

text \<open>
  The tests the handlers make on the row they found agree with the decisions stated on the
  row: the expiry test with \<open>expired\<close>, the password checks with \<open>has_password\<close> and
  \<open>verifies\<close>.
\<close>

lemma expires_at_passed_expired:
  "expires_at_passed env (expires_at r) = expired env r"
  by (cases "expires_at r") (auto simp: expired_def expiry_time_def split: option.splits)

lemma express_pw_check_decide:
  "is_active r \<Longrightarrow> \<not> expired env r \<Longrightarrow>
   decide env r pw =
     (case express_pw_check env (password r) pw of
        Pass \<Rightarrow> ALLOWED | Prompt \<Rightarrow> PASSWORD_REQUIRED | Throws \<Rightarrow> RESOLUTION_FAILED)"
  by (cases "password r"; cases pw)
     (auto simp: decide_def has_password_def verifies_def)

lemma password_refused_decide:
  "is_active r \<Longrightarrow> \<not> expired env r \<Longrightarrow>
   decide env r (param cred) =
     (if password_refused env (password r) cred then PASSWORD_REQUIRED else ALLOWED)"
  by (cases "password r"; cases cred)
     (auto simp: decide_def has_password_def verifies_def)


section \<open>The redirect handlers on a stored row\<close>

lemma express_get_r_member:
  assumes "distinct (map short_code (qr_codes s))" and "r \<in> set (qr_codes s)"
  shows "express_get_r env s (short_code r) pw =
           (express_reply (decide env r pw) r,
            if decide env r pw = ALLOWED
            then s\<lparr>qr_codes :=
                   snd (stmts_incrementScan (datetime_now env) (qr_codes s) (short_code r))\<rparr>
            else s)"
proof (cases "is_active r \<and> \<not> expired env r")
  case True
  then show ?thesis
    using assms
    by (cases "express_pw_check env (password r) pw")
       (simp_all add: express_get_r_def findByCode_member expires_at_passed_expired
          express_pw_check_decide)
next
  case False
  then show ?thesis
    using assms
    by (auto simp: express_get_r_def findByCode_member expires_at_passed_expired decide_def)
qed

lemma next_GET_r_member:
  assumes "distinct (map short_code (qr_codes s))" and "r \<in> set (qr_codes s)"
  shows "next_GET_r env s (short_code r) cred =
           (next_reply (decide env r (param cred)) r,
            if decide env r (param cred) = ALLOWED
            then s\<lparr>qr_codes := incrementScan (qr_codes s) (short_code r)\<rparr>
            else s)"
proof (cases "is_active r \<and> \<not> expired env r")
  case True
  then show ?thesis
    using assms
    by (simp add: next_GET_r_def findByCode_member expires_at_passed_expired
        password_refused_decide)
next
  case False
  then show ?thesis
    using assms
    by (auto simp: next_GET_r_def findByCode_member expires_at_passed_expired decide_def)
qed

lemma express_get_r_absent:
  "code \<notin> set (map short_code (qr_codes s)) \<Longrightarrow>
   express_get_r env s code pw = (SendFile 404 ''index.html'', s)"
  by (simp add: express_get_r_def findByCode_absent)

lemma next_GET_r_absent:
  "code \<notin> set (map short_code (qr_codes s)) \<Longrightarrow>
   next_GET_r env s code cred = (Redirect 307 (Path ''/''), s)"
  by (simp add: next_GET_r_def findByCode_absent)



text \<open>
  Claim C6. A request for a code that no row carries and a request for the code of a
  deactivated row get the same answer, whatever the environment and the supplied password:
  404 with the landing page in the Express server, a redirect to the landing page in the
  Next.js route. Neither request changes the state.
\<close>

theorem missing_and_inactive_codes_answer_alike:
  assumes "code \<notin> set (map short_code (qr_codes s1))"
    and "distinct (map short_code (qr_codes s2))" and "r \<in> set (qr_codes s2)"
    and "\<not> is_active r"
  shows "express_get_r env1 s1 code pw1 = (SendFile 404 ''index.html'', s1)
       \<and> express_get_r env2 s2 (short_code r) pw2 = (SendFile 404 ''index.html'', s2)
       \<and> fst (express_get_r env1 s1 code pw1) = fst (express_get_r env2 s2 (short_code r) pw2)
       \<and> next_GET_r env1 s1 code cred1 = (Redirect 307 (Path ''/''), s1)
       \<and> next_GET_r env2 s2 (short_code r) cred2 = (Redirect 307 (Path ''/''), s2)
       \<and> fst (next_GET_r env1 s1 code cred1) = fst (next_GET_r env2 s2 (short_code r) cred2)"
  using assms
  by (simp add: express_get_r_absent next_GET_r_absent express_get_r_member next_GET_r_member
      decide_def)

theorem missing_and_inactive_codes_answer_alike_witness:
  "express_get_r demo_env demo_server ''nosuch00'' Absent = (SendFile 404 ''index.html'', demo_server)
   \<and> express_get_r demo_env demo_server ''Zx81aaQ_'' Structured
       = (SendFile 404 ''index.html'', demo_server)
   \<and> next_GET_r demo_env demo_server ''nosuch00'' None = (Redirect 307 (Path ''/''), demo_server)
   \<and> next_GET_r demo_env demo_server ''Zx81aaQ_'' None = (Redirect 307 (Path ''/''), demo_server)"
proof -
  have a: "''nosuch00'' \<notin> set (map short_code (qr_codes demo_server))"
    and d: "distinct (map short_code (qr_codes demo_server))"
    and m: "retired_row \<in> set (qr_codes demo_server)"
    and i: "\<not> is_active retired_row"
    and c: "short_code retired_row = ''Zx81aaQ_''"
    by (simp_all add: demo_defs)
  show ?thesis
    using missing_and_inactive_codes_answer_alike
      [OF a d m i, of demo_env Absent demo_env Structured None None]
    unfolding c by simp
qed

section \<open>No password and a wrong password\<close>

text \<open>
  Claim C7 holds in the Next.js route and for string credentials in the Express server, and
  fails in the Express server for a credential that is not a string. For a row with a
  password, in a table with unique codes: a string that fails the comparison gets the same
  response and the same state as no credential, in both servers; when the row is active and
  not expired, the Express server answers no credential with the password prompt and a
  repeated or indexed \<open>pw\<close> parameter with 500, so the two are told apart.
\<close>

theorem structured_password_is_told_apart:
  assumes "distinct (map short_code (qr_codes s))" and "r \<in> set (qr_codes s)"
    and "password r = Some h" and "h \<noteq> []"
  shows "(\<not> compareSync env wrong h \<longrightarrow>
            express_get_r env s (short_code r) (Str wrong) = express_get_r env s (short_code r) Absent
          \<and> next_GET_r env s (short_code r) (Some wrong) = next_GET_r env s (short_code r) None)
       \<and> (is_active r \<and> \<not> expired env r \<longrightarrow>
            express_get_r env s (short_code r) Absent = (SendFile 200 ''password.html'', s)
          \<and> express_get_r env s (short_code r) Structured
              = (Json 500 (ErrorJson ''Server error''), s)
          \<and> next_GET_r env s (short_code r) None
              = (Redirect 307 (Path (''/password/'' @ short_code r)), s))"
  using assms
  by (simp add: express_get_r_member next_GET_r_member decide_def has_password_def
      verifies_def)

text \<open>
  The row with a password: \<open>GET /r/V1StGXR8\<close> gets the prompt, \<open>GET /r/V1StGXR8?pw=wrong\<close>
  gets the prompt, \<open>GET /r/V1StGXR8?pw=a&pw=b\<close> gets 500 from the Express server.
\<close>

theorem structured_password_is_told_apart_witness:
  "express_get_r demo_env demo_server ''V1StGXR8'' Absent
     = (SendFile 200 ''password.html'', demo_server)
   \<and> express_get_r demo_env demo_server ''V1StGXR8'' (Str ''wrong'')
     = (SendFile 200 ''password.html'', demo_server)
   \<and> express_get_r demo_env demo_server ''V1StGXR8'' Structured
     = (Json 500 (ErrorJson ''Server error''), demo_server)
   \<and> next_GET_r demo_env demo_server ''V1StGXR8'' (Some ''wrong'')
     = (Redirect 307 (Path ''/password/V1StGXR8''), demo_server)
   \<and> next_GET_r demo_env demo_server ''V1StGXR8'' None
     = (Redirect 307 (Path ''/password/V1StGXR8''), demo_server)"
proof -
  have d: "distinct (map short_code (qr_codes demo_server))"
    and m: "locked_row \<in> set (qr_codes demo_server)"
    and h: "password locked_row = Some ''$2a$10$secret123''"
    and c: "short_code locked_row = ''V1StGXR8''"
    and a: "is_active locked_row" "\<not> expired demo_env locked_row"
    and w: "\<not> compareSync demo_env ''wrong'' ''$2a$10$secret123''"
    by (simp_all add: expired_def expiry_time_def demo_defs)
  show ?thesis
    using structured_password_is_told_apart [OF d m h, of demo_env "''wrong''"] a w
    unfolding c by simp
qed

section \<open>The two increment statements and the active flag\<close>

text \<open>
  Claim C9, as stated, fails: neither increment statement looks at \<open>is_active\<close>. On a table
  holding one deactivated row with seven scans, both statements raise the count to eight;
  the statement of \<open>db.js\<close> also stamps the row and reports one changed row, so the call is
  not a no-op.
\<close>

theorem incrementScan_inactive_counterexample:
  "is_active retired_row = False
   \<and> stmts_incrementScan ''2023-11-14 22:13:20'' [retired_row] ''Zx81aaQ_''
       = (1, [retired_row\<lparr>scan_count := 8, last_scanned_at := Some ''2023-11-14 22:13:20''\<rparr>])
   \<and> snd (stmts_incrementScan ''2023-11-14 22:13:20'' [retired_row] ''Zx81aaQ_'') \<noteq> [retired_row]
   \<and> incrementScan [retired_row] ''Zx81aaQ_'' = [retired_row\<lparr>scan_count := 8\<rparr>]
   \<and> incrementScan [retired_row] ''Zx81aaQ_'' \<noteq> [retired_row]"
  by (simp add: stmts_incrementScan_def incrementScan_def retired_row_def)

text \<open>
  Claim C9, amended. In a table with unique codes, incrementing the code of a stored row,
  active or not, adds one to its scan count, by either statement; the statement of \<open>db.js\<close>
  also sets \<open>last_scanned_at\<close> to the current time and reports one changed row. Rows of other
  codes are unchanged. For a code that no row carries the table is unchanged, by either
  statement, and the statement of \<open>db.js\<close> reports zero changed rows.
\<close>

theorem incrementScan_ignores_is_active:
  assumes "distinct (map short_code tbl)" and "r \<in> set tbl"
  shows "stmts_incrementScan now tbl (short_code r)
           = (1, snd (stmts_incrementScan now tbl (short_code r)))
       \<and> getStats (snd (stmts_incrementScan now tbl (short_code r))) (short_code r)
           = Some (r\<lparr>scan_count := scan_count r + 1, last_scanned_at := Some now\<rparr>)
       \<and> map_option scan_count (getStats (incrementScan tbl (short_code r)) (short_code r))
           = Some (scan_count r + 1)
       \<and> others (short_code r) (snd (stmts_incrementScan now tbl (short_code r)))
           = others (short_code r) tbl
       \<and> others (short_code r) (incrementScan tbl (short_code r)) = others (short_code r) tbl
       \<and> (\<forall>code. code \<notin> set (map short_code tbl) \<longrightarrow>
             stmts_incrementScan now tbl code = (0, tbl) \<and> incrementScan tbl code = tbl)"
  using assms stmts_incrementScan_member [OF assms, of now]
  by (simp add: getStats_incrementScan others_stmts_incrementScan others_incrementScan
      stmts_incrementScan_absent incrementScan_absent prod_eq_iff)

text \<open>
  On the example table, the deactivated row goes from seven scans to eight by either
  statement, and a code that no row carries changes nothing and is reported as zero rows.
\<close>

theorem incrementScan_ignores_is_active_witness:
  "stmts_incrementScan ''2023-11-14 22:13:20'' (qr_codes demo_server) ''Zx81aaQ_''
     = (1, [locked_row,
            retired_row\<lparr>scan_count := 8, last_scanned_at := Some ''2023-11-14 22:13:20''\<rparr>,
            anonymous_row, lapsed_row])
   \<and> map_option scan_count (getStats (incrementScan (qr_codes demo_server) ''Zx81aaQ_'') ''Zx81aaQ_'')
     = Some 8
   \<and> stmts_incrementScan ''2023-11-14 22:13:20'' (qr_codes demo_server) ''nosuch00''
     = (0, qr_codes demo_server)
   \<and> incrementScan (qr_codes demo_server) ''nosuch00'' = qr_codes demo_server"
proof -
  have d: "distinct (map short_code (qr_codes demo_server))"
    by (simp add: demo_defs)
  have m: "retired_row \<in> set (qr_codes demo_server)"
    by (simp add: demo_defs)
  have row: "short_code retired_row = ''Zx81aaQ_''" "scan_count retired_row = 7"
    by (simp_all add: retired_row_def)
  have absent: "''nosuch00'' \<notin> set (map short_code (qr_codes demo_server))"
    by (simp add: demo_defs)
  have tbl: "snd (stmts_incrementScan ''2023-11-14 22:13:20'' (qr_codes demo_server) ''Zx81aaQ_'')
     = [locked_row,
        retired_row\<lparr>scan_count := 8, last_scanned_at := Some ''2023-11-14 22:13:20''\<rparr>,
        anonymous_row, lapsed_row]"
    by (simp add: stmts_incrementScan_def demo_defs)
  show ?thesis
    using incrementScan_ignores_is_active [OF d m, of "''2023-11-14 22:13:20''"] absent
    unfolding row tbl by simp
qed

section \<open>The update and deactivate statements\<close>

lemma updateDestination_member:
  "distinct (map short_code tbl) \<Longrightarrow> r \<in> set tbl \<Longrightarrow>
   fst (updateDestination tbl url (short_code r) userId) = (if sql_eq (user_id r) userId then 1 else 0)
   \<and> getStats (snd (updateDestination tbl url (short_code r) userId)) (short_code r)
       = Some (if sql_eq (user_id r) userId then r\<lparr>destination_url := url\<rparr> else r)"
  unfolding updateDestination_def getStats_def
  by (induction tbl) (auto simp: image_iff filter_empty_conv)

lemma updateDestination_others:
  "others code (snd (updateDestination tbl url code userId)) = others code tbl"
  unfolding updateDestination_def others_def by (induction tbl) auto

lemma updateDestination_no_match:
  "\<forall>r\<in>set tbl. \<not> (short_code r = code \<and> sql_eq (user_id r) userId) \<Longrightarrow>
   updateDestination tbl url code userId = (0, tbl)"
  unfolding updateDestination_def by (induction tbl) auto

lemma deleteQR_no_match:
  "\<forall>r\<in>set tbl. \<not> (short_code r = code \<and> sql_eq (user_id r) userId) \<Longrightarrow>
   deleteQR tbl code userId = (0, tbl)"
  unfolding deleteQR_def by (induction tbl) auto

text \<open>
  Claim C4, as stated, fails: the update statement does not look at \<open>is_active\<close>. On a table
  holding one deactivated row of user 1, an update by user 1 changes the destination and
  reports one row changed.
\<close>

theorem updateDestination_inactive_counterexample:
  "is_active retired_row = False
   \<and> updateDestination [retired_row] ''https://example.com/new'' ''Zx81aaQ_'' (Some 1)
       = (1, [retired_row\<lparr>destination_url := ''https://example.com/new''\<rparr>])
   \<and> destination_url retired_row \<noteq> ''https://example.com/new''"
  by (simp add: updateDestination_def retired_row_def)

text \<open>
  Claim C4, amended. In a table with unique codes, an update of the code of a stored row
  changes the destination of that row, and reports one row, exactly when the given owner
  equals the row's stored owner (which is then not null), whether the row is active or not.
  Otherwise it reports zero rows and the table is unchanged. Rows of other codes are never
  changed, and an update of a code that no row carries reports zero rows and changes nothing.
\<close>

theorem updateDestination_checks_owner_only:
  assumes "distinct (map short_code tbl)" and "r \<in> set tbl"
  shows "fst (updateDestination tbl url (short_code r) userId)
           = (if sql_eq (user_id r) userId then 1 else 0)
       \<and> getStats (snd (updateDestination tbl url (short_code r) userId)) (short_code r)
           = Some (if sql_eq (user_id r) userId then r\<lparr>destination_url := url\<rparr> else r)
       \<and> others (short_code r) (snd (updateDestination tbl url (short_code r) userId))
           = others (short_code r) tbl
       \<and> (\<not> sql_eq (user_id r) userId \<longrightarrow>
             updateDestination tbl url (short_code r) userId = (0, tbl))
       \<and> (\<forall>code. code \<notin> set (map short_code tbl) \<longrightarrow>
             updateDestination tbl url code userId = (0, tbl))"
proof -
  have "updateDestination tbl url (short_code r) userId = (0, tbl)"
    if "\<not> sql_eq (user_id r) userId"
  proof (rule updateDestination_no_match, rule ballI)
    fix x assume x: "x \<in> set tbl"
    show "\<not> (short_code x = short_code r \<and> sql_eq (user_id x) userId)"
    proof
      assume a: "short_code x = short_code r \<and> sql_eq (user_id x) userId"
      with assms x have "x = r" by (metis distinct_map inj_onD)
      with a that show False by simp
    qed
  qed
  moreover have "updateDestination tbl url code userId = (0, tbl)"
    if "code \<notin> set (map short_code tbl)" for code
    using that by (intro updateDestination_no_match) auto
  ultimately show ?thesis
    using updateDestination_member [OF assms] updateDestination_others by simp
qed

text \<open>
  The deactivated row of user 1 is updated by user 1 and left alone by user 2; an update of
  a code that no row carries changes nothing.
\<close>

theorem updateDestination_checks_owner_only_witness:
  "updateDestination (qr_codes demo_server) ''https://example.com/new'' ''Zx81aaQ_'' (Some 1)
     = (1, [locked_row, retired_row\<lparr>destination_url := ''https://example.com/new''\<rparr>, anonymous_row,
         lapsed_row])
   \<and> updateDestination (qr_codes demo_server) ''https://example.com/new'' ''Zx81aaQ_'' (Some 2)
     = (0, qr_codes demo_server)
   \<and> updateDestination (qr_codes demo_server) ''https://example.com/new'' ''nosuch00'' (Some 1)
     = (0, qr_codes demo_server)"
proof -
  have d: "distinct (map short_code (qr_codes demo_server))"
    by (simp add: demo_defs)
  have m: "retired_row \<in> set (qr_codes demo_server)"
    by (simp add: demo_defs)
  have row: "short_code retired_row = ''Zx81aaQ_''" "user_id retired_row = Some 1"
    by (simp_all add: retired_row_def)
  have absent: "''nosuch00'' \<notin> set (map short_code (qr_codes demo_server))"
    by (simp add: demo_defs)
  have one: "updateDestination (qr_codes demo_server) ''https://example.com/new'' ''Zx81aaQ_'' (Some 1)
     = (1, [locked_row, retired_row\<lparr>destination_url := ''https://example.com/new''\<rparr>, anonymous_row,
         lapsed_row])"
    by (simp add: updateDestination_def demo_defs)
  show ?thesis
    using updateDestination_checks_owner_only [OF d m, of "''https://example.com/new''" "Some 2"]
      updateDestination_checks_owner_only [OF d m, of "''https://example.com/new''" "Some 1"]
      one absent
    unfolding row by simp
qed

section \<open>Rows without an owner\<close>

lemma anonymous_rows_updateDestination:
  "anonymous_rows (snd (updateDestination tbl url code userId)) = anonymous_rows tbl"
  unfolding anonymous_rows_def updateDestination_def by (induction tbl) auto

lemma anonymous_rows_deleteQR:
  "anonymous_rows (snd (deleteQR tbl code userId)) = anonymous_rows tbl"
  unfolding anonymous_rows_def deleteQR_def by (induction tbl) auto

lemma updateDestination_changed_owner:
  "fst (updateDestination tbl url code userId) \<noteq> 0 \<Longrightarrow>
   \<exists>r\<in>set tbl. \<exists>uid. short_code r = code \<and> user_id r = Some uid \<and> userId = Some uid"
proof -
  assume "fst (updateDestination tbl url code userId) \<noteq> 0"
  then obtain r where r: "r \<in> set tbl" "short_code r = code" "sql_eq (user_id r) userId"
    unfolding updateDestination_def by (auto simp: filter_empty_conv)
  then show ?thesis
    by (cases "user_id r"; cases userId) auto
qed

lemma deleteQR_changed_owner:
  "fst (deleteQR tbl code userId) \<noteq> 0 \<Longrightarrow>
   \<exists>r\<in>set tbl. \<exists>uid. short_code r = code \<and> user_id r = Some uid \<and> userId = Some uid"
proof -
  assume "fst (deleteQR tbl code userId) \<noteq> 0"
  then obtain r where r: "r \<in> set tbl" "short_code r = code" "sql_eq (user_id r) userId"
    unfolding deleteQR_def by (auto simp: filter_empty_conv)
  then show ?thesis
    by (cases "user_id r"; cases userId) auto
qed

lemma anonymous_rows_put_qr:
  "anonymous_rows (qr_codes (snd (put_qr env s uid code url))) = anonymous_rows (qr_codes s)"
proof (cases url)
  case None
  then show ?thesis by (simp add: put_qr_def)
next
  case (Some u)
  obtain n tbl where upd: "updateDestination (qr_codes s) u code (Some uid) = (n, tbl)"
    by (cases "updateDestination (qr_codes s) u code (Some uid)")
  then have "anonymous_rows tbl = anonymous_rows (qr_codes s)"
    using anonymous_rows_updateDestination [of "qr_codes s" u code "Some uid"] by simp
  then show ?thesis
    using Some upd by (simp add: put_qr_def split: option.splits)
qed

lemma anonymous_rows_delete_qr:
  "anonymous_rows (qr_codes (snd (delete_qr s uid code))) = anonymous_rows (qr_codes s)"
proof -
  obtain n tbl where del: "deleteQR (qr_codes s) code (Some uid) = (n, tbl)"
    by (cases "deleteQR (qr_codes s) code (Some uid)")
  then have "anonymous_rows tbl = anonymous_rows (qr_codes s)"
    using anonymous_rows_deleteQR [of "qr_codes s" code "Some uid"] by simp
  then show ?thesis
    using del by (simp add: delete_qr_def)
qed

lemma put_qr_success_owner:
  assumes "fst (put_qr env s uid code url) = Json 200 m"
  shows "\<exists>r\<in>set (qr_codes s). short_code r = code \<and> user_id r = Some uid"
proof (cases url)
  case None
  with assms show ?thesis by (simp add: put_qr_def)
next
  case (Some u)
  obtain n tbl where upd: "updateDestination (qr_codes s) u code (Some uid) = (n, tbl)"
    by (cases "updateDestination (qr_codes s) u code (Some uid)")
  with assms Some have "n \<noteq> 0"
    by (auto simp: put_qr_def split: option.splits if_splits)
  with upd have "fst (updateDestination (qr_codes s) u code (Some uid)) \<noteq> 0" by simp
  from updateDestination_changed_owner [OF this] show ?thesis by auto
qed

lemma delete_qr_success_owner:
  assumes "fst (delete_qr s uid code) = Json 200 m"
  shows "\<exists>r\<in>set (qr_codes s). short_code r = code \<and> user_id r = Some uid"
proof -
  obtain n tbl where del: "deleteQR (qr_codes s) code (Some uid) = (n, tbl)"
    by (cases "deleteQR (qr_codes s) code (Some uid)")
  with assms have "n \<noteq> 0"
    by (auto simp: delete_qr_def split: if_splits)
  with del have "fst (deleteQR (qr_codes s) code (Some uid)) \<noteq> 0" by simp
  from deleteQR_changed_owner [OF this] show ?thesis by auto
qed

text \<open>
  Claim C8. The rows created without an account are the same after every update and every
  deactivation as before it, at the level of the two statements (for any bound owner, null
  included) and of the four handlers (for any request). A statement that reports a changed
  row, and a handler that answers with success, was given the identity that some row of
  that code stores as its non-null owner.
\<close>

theorem anonymous_rows_are_never_changed:
  "anonymous_rows (snd (updateDestination tbl url code userId)) = anonymous_rows tbl
   \<and> anonymous_rows (snd (deleteQR tbl code userId)) = anonymous_rows tbl
   \<and> anonymous_rows (qr_codes (snd (express_put_qr env s a code body))) = anonymous_rows (qr_codes s)
   \<and> anonymous_rows (qr_codes (snd (next_PUT_qr env s a code body))) = anonymous_rows (qr_codes s)
   \<and> anonymous_rows (qr_codes (snd (express_delete_qr s a code))) = anonymous_rows (qr_codes s)
   \<and> anonymous_rows (qr_codes (snd (next_DELETE_qr s a code))) = anonymous_rows (qr_codes s)
   \<and> (fst (updateDestination tbl url code userId) \<noteq> 0 \<longrightarrow>
        (\<exists>r\<in>set tbl. \<exists>uid. short_code r = code \<and> user_id r = Some uid \<and> userId = Some uid))
   \<and> (fst (deleteQR tbl code userId) \<noteq> 0 \<longrightarrow>
        (\<exists>r\<in>set tbl. \<exists>uid. short_code r = code \<and> user_id r = Some uid \<and> userId = Some uid))
   \<and> ((\<exists>m. fst (express_put_qr env s a code body) = Json 200 m
          \<or> fst (next_PUT_qr env s a code body) = Json 200 m
          \<or> fst (express_delete_qr s a code) = Json 200 m
          \<or> fst (next_DELETE_qr s a code) = Json 200 m) \<longrightarrow>
        (\<exists>r\<in>set (qr_codes s). \<exists>uid. short_code r = code \<and> user_id r = Some uid \<and> a = Verified uid))"
proof -
  have 1: "anonymous_rows (qr_codes (snd (express_put_qr env s a code body))) = anonymous_rows (qr_codes s)"
    by (cases a) (simp_all add: express_put_qr_def anonymous_rows_put_qr)
  have 2: "anonymous_rows (qr_codes (snd (next_PUT_qr env s a code body))) = anonymous_rows (qr_codes s)"
    by (cases a) (simp_all add: next_PUT_qr_def anonymous_rows_put_qr)
  have 3: "anonymous_rows (qr_codes (snd (express_delete_qr s a code))) = anonymous_rows (qr_codes s)"
    by (cases a) (simp_all add: express_delete_qr_def anonymous_rows_delete_qr)
  have 4: "anonymous_rows (qr_codes (snd (next_DELETE_qr s a code))) = anonymous_rows (qr_codes s)"
    by (cases a) (simp_all add: next_DELETE_qr_def anonymous_rows_delete_qr)
  have 5: "\<exists>r\<in>set (qr_codes s). \<exists>uid. short_code r = code \<and> user_id r = Some uid \<and> a = Verified uid"
    if "fst (express_put_qr env s a code body) = Json 200 m
          \<or> fst (next_PUT_qr env s a code body) = Json 200 m
          \<or> fst (express_delete_qr s a code) = Json 200 m
          \<or> fst (next_DELETE_qr s a code) = Json 200 m" for m
    using that put_qr_success_owner [of env s _ code body m]
      delete_qr_success_owner [of s _ code m]
    by (cases a)
       (auto simp: express_put_qr_def next_PUT_qr_def express_delete_qr_def next_DELETE_qr_def)
  have 6: "(\<exists>m. fst (express_put_qr env s a code body) = Json 200 m
          \<or> fst (next_PUT_qr env s a code body) = Json 200 m
          \<or> fst (express_delete_qr s a code) = Json 200 m
          \<or> fst (next_DELETE_qr s a code) = Json 200 m) \<longrightarrow>
        (\<exists>r\<in>set (qr_codes s). \<exists>uid. short_code r = code \<and> user_id r = Some uid \<and> a = Verified uid)"
    using 5 by blast
  have 7: "fst (updateDestination tbl url code userId) \<noteq> 0 \<longrightarrow>
        (\<exists>r\<in>set tbl. \<exists>uid. short_code r = code \<and> user_id r = Some uid \<and> userId = Some uid)"
    using updateDestination_changed_owner [of tbl url code userId] by blast
  have 8: "fst (deleteQR tbl code userId) \<noteq> 0 \<longrightarrow>
        (\<exists>r\<in>set tbl. \<exists>uid. short_code r = code \<and> user_id r = Some uid \<and> userId = Some uid)"
    using deleteQR_changed_owner [of tbl code userId] by blast
  show ?thesis
    by (intro conjI)
       (rule anonymous_rows_updateDestination anonymous_rows_deleteQR 1 2 3 4 6 7 8)+
qed


text \<open>
  User 1 asks to change and to deactivate the anonymous code: both are refused and the
  anonymous row stays; the update of the user's own code reports one row and its
  deactivation succeeds.
\<close>

theorem anonymous_rows_are_never_changed_witness:
  "anonymous_rows (qr_codes (snd (express_put_qr demo_env demo_server (Verified 1) ''m0Nq4rSt''
      (Some ''https://example.com/menu'')))) = [anonymous_row]
   \<and> anonymous_rows (qr_codes (snd (next_DELETE_qr demo_server (Verified 1) ''m0Nq4rSt'')))
       = [anonymous_row]
   \<and> fst (express_put_qr demo_env demo_server (Verified 1) ''m0Nq4rSt''
        (Some ''https://example.com/menu''))
       = Json 404 (ErrorJson ''QR code not found or not owned by you'')
   \<and> fst (updateDestination (qr_codes demo_server) ''https://example.com/menu'' ''V1StGXR8'' (Some 1))
       = 1
   \<and> fst (express_delete_qr demo_server (Verified 1) ''V1StGXR8'')
       = Json 200 (MessageJson ''QR code deactivated'')
   \<and> (\<exists>r\<in>set (qr_codes demo_server). \<exists>uid.
         short_code r = ''V1StGXR8'' \<and> user_id r = Some uid \<and> Verified 1 = Verified uid)"
proof -
  have anon: "anonymous_rows (qr_codes demo_server) = [anonymous_row]"
    by (simp add: anonymous_rows_def demo_defs)
  have changed: "fst (updateDestination (qr_codes demo_server) ''https://example.com/menu''
      ''V1StGXR8'' (Some 1)) = 1"
    by (simp add: updateDestination_def demo_defs)
  have refused: "fst (express_put_qr demo_env demo_server (Verified 1) ''m0Nq4rSt''
        (Some ''https://example.com/menu''))
       = Json 404 (ErrorJson ''QR code not found or not owned by you'')"
    by (simp add: express_put_qr_def put_qr_def updateDestination_def demo_defs)
  have deleted: "fst (express_delete_qr demo_server (Verified 1) ''V1StGXR8'')
       = Json 200 (MessageJson ''QR code deactivated'')"
    by (simp add: express_delete_qr_def delete_qr_def deleteQR_def demo_defs)
  show ?thesis
    using anonymous_rows_are_never_changed
      [of "qr_codes demo_server" "''https://example.com/menu''" "''V1StGXR8''" "Some 1"
          demo_env demo_server "Verified 1" "Some ''https://example.com/menu''"]
      anonymous_rows_are_never_changed
      [of "qr_codes demo_server" "''https://example.com/menu''" "''m0Nq4rSt''" "Some 1"
          demo_env demo_server "Verified 1" "Some ''https://example.com/menu''"]
    unfolding anon changed refused deleted by auto
qed

section \<open>The creation handlers\<close>

lemma insert_qr_collision:
  "nanoid env (draws s) \<in> set (map short_code (qr_codes s)) \<Longrightarrow>
   insert_qr fk env s base userId u body =
     (Json 500 (ErrorJson ''Failed to create QR code''), s\<lparr>draws := draws s + 1\<rparr>)"
  by (simp add: insert_qr_def createQR_def Let_def)

lemma insert_qr_orphan:
  "fk \<Longrightarrow> owner_missing (users s) userId \<Longrightarrow>
   insert_qr fk env s base userId u body =
     (Json 500 (ErrorJson ''Failed to create QR code''), s\<lparr>draws := draws s + 1\<rparr>)"
  by (simp add: insert_qr_def createQR_def Let_def)

lemma insert_qr_fresh:
  "nanoid env (draws s) \<notin> set (map short_code (qr_codes s)) \<Longrightarrow>
   \<not> (fk \<and> owner_missing (users s) userId) \<Longrightarrow>
   insert_qr fk env s base userId u body =
     (Json 201 (CreatedJson (nanoid env (draws s)) (base @ ''/r/'' @ nanoid env (draws s)) u
                  (Date_now env)),
      s\<lparr>draws := draws s + 1,
        qr_codes := qr_codes s @
          [\<lparr>short_code = nanoid env (draws s), destination_url = u, user_id = userId,
            scan_count = 0, created_at = datetime_now env, last_scanned_at = None,
            expires_at = or_null (body_expiresAt body),
            password = map_option (hashSync env) (or_null (body_password body)),
            is_active = True\<rparr>]\<rparr>)"
  by (simp add: insert_qr_def createQR_def Let_def)

lemma express_post_qr_valid:
  assumes "body_url body = Some u" and "u \<noteq> []"
    and "URL_protocol env u = Some ''http:'' \<or> URL_protocol env u = Some ''https:''"
    and "length u \<le> 2048"
  shows "express_post_qr env s a body =
           (case express_quota s (userId_of a) of
              Some refusal \<Rightarrow> (refusal, s)
            | None \<Rightarrow> insert_qr True env s (BASE_URL env) (userId_of a) u body)"
  using assms by (auto simp: express_post_qr_def)

lemma next_POST_qr_valid:
  assumes "body_url body = Some u" and "u \<noteq> []"
    and "URL_protocol env u = Some ''http:'' \<or> URL_protocol env u = Some ''https:''"
    and "length u \<le> 2048"
  shows "next_POST_qr env s baseUrl a body =
           (case next_quota s (userId_of a) of
              Some refusal \<Rightarrow> (refusal, s)
            | None \<Rightarrow> insert_qr (foreign_keys env) env s baseUrl (userId_of a) u body)"
  using assms by (auto simp: next_POST_qr_def)

lemma express_post_qr_collision_tables:
  assumes "nanoid env (draws s) \<in> set (map short_code (qr_codes s))"
  shows "qr_codes (snd (express_post_qr env s a body)) = qr_codes s
       \<and> draws (snd (express_post_qr env s a body)) \<le> draws s + 1
       \<and> (\<forall>p. fst (express_post_qr env s a body) \<noteq> Json 201 p)"
  using assms
  by (auto simp: express_post_qr_def insert_qr_collision express_quota_def
      split: option.splits)

lemma next_POST_qr_collision_tables:
  assumes "nanoid env (draws s) \<in> set (map short_code (qr_codes s))"
  shows "qr_codes (snd (next_POST_qr env s baseUrl a body)) = qr_codes s
       \<and> draws (snd (next_POST_qr env s baseUrl a body)) \<le> draws s + 1
       \<and> (\<forall>p. fst (next_POST_qr env s baseUrl a body) \<noteq> Json 201 p)"
  using assms
  by (auto simp: next_POST_qr_def insert_qr_collision next_quota_def
      split: option.splits)

text \<open>
  Claim C5, as stated, fails: no handler draws a second code. Here the first code drawn is
  already taken and the next one would be free; both handlers answer the valid, anonymous
  request with 500 after that single draw and insert nothing.
\<close>

theorem create_collision_counterexample:
  "nanoid demo_env (draws demo_server) \<in> set (map short_code (qr_codes demo_server))
   \<and> nanoid demo_env (draws demo_server + 1) \<notin> set (map short_code (qr_codes demo_server))
   \<and> express_post_qr demo_env demo_server NoBearer demo_body
       = (Json 500 (ErrorJson ''Failed to create QR code''), demo_server\<lparr>draws := 1\<rparr>)
   \<and> next_POST_qr demo_env demo_server ''http://localhost:3000'' NoBearer demo_body
       = (Json 500 (ErrorJson ''Failed to create QR code''), demo_server\<lparr>draws := 1\<rparr>)"
  by (simp add: express_post_qr_def next_POST_qr_def express_quota_def next_quota_def
      insert_qr_def createQR_def Let_def demo_defs)

text \<open>
  Claim C5, amended. For a request whose URL passes validation, when the one code drawn for
  it is already carried by a row (active or not), a handler that gets past the plan check
  answers 500 (failed to create), having drawn exactly one code; whatever the plan check
  says, the table of codes is unchanged and at most one code was drawn. There is no second
  draw and no second insert.
\<close>

theorem create_collision_is_not_retried:
  assumes "body_url body = Some u" and "u \<noteq> []"
    and "URL_protocol env u = Some ''http:'' \<or> URL_protocol env u = Some ''https:''"
    and "length u \<le> 2048"
    and "nanoid env (draws s) \<in> set (map short_code (qr_codes s))"
  shows "(express_quota s (userId_of a) = None \<longrightarrow>
            express_post_qr env s a body
              = (Json 500 (ErrorJson ''Failed to create QR code''), s\<lparr>draws := draws s + 1\<rparr>))
       \<and> (next_quota s (userId_of a) = None \<longrightarrow>
            next_POST_qr env s baseUrl a body
              = (Json 500 (ErrorJson ''Failed to create QR code''), s\<lparr>draws := draws s + 1\<rparr>))
       \<and> qr_codes (snd (express_post_qr env s a body)) = qr_codes s
       \<and> qr_codes (snd (next_POST_qr env s baseUrl a body)) = qr_codes s
       \<and> draws (snd (express_post_qr env s a body)) \<le> draws s + 1
       \<and> draws (snd (next_POST_qr env s baseUrl a body)) \<le> draws s + 1"
  using assms express_post_qr_collision_tables [of env s a body]
    next_POST_qr_collision_tables [of env s baseUrl a body]
  by (simp add: express_post_qr_valid next_POST_qr_valid insert_qr_collision)

text \<open>The colliding draw, for an anonymous request and for a request of user 1.\<close>

theorem create_collision_is_not_retried_witness:
  "express_post_qr demo_env demo_server NoBearer demo_body
     = (Json 500 (ErrorJson ''Failed to create QR code''), demo_server\<lparr>draws := 1\<rparr>)
   \<and> next_POST_qr demo_env demo_server ''http://localhost:3000'' (Verified 1) demo_body
     = (Json 500 (ErrorJson ''Failed to create QR code''), demo_server\<lparr>draws := 1\<rparr>)"
proof -
  have u: "body_url demo_body = Some ''https://example.com/menu''"
    by (simp add: demo_defs)
  have p: "URL_protocol demo_env ''https://example.com/menu'' = Some ''http:''
           \<or> URL_protocol demo_env ''https://example.com/menu'' = Some ''https:''"
    by (simp add: demo_defs)
  have c: "nanoid demo_env (draws demo_server) \<in> set (map short_code (qr_codes demo_server))"
    by (simp add: demo_defs)
  have q: "express_quota demo_server (userId_of NoBearer) = None"
    by (simp add: express_quota_def)
  have q': "next_quota demo_server (userId_of (Verified 1)) = None"
    by (simp add: next_quota_def findUserById_def countUserQRs_def limit_of_plan_def
        PLAN_LIMITS_def demo_defs)
  have d: "draws demo_server = 0"
    by (simp add: demo_defs)
  show ?thesis
    using create_collision_is_not_retried [OF u _ p _ c, of NoBearer "''http://localhost:3000''"]
      create_collision_is_not_retried [OF u _ p _ c, of "Verified 1" "''http://localhost:3000''"]
      q q'
    unfolding d by simp
qed

section \<open>What a successful creation stores\<close>

lemma sql_eq_Some: "sql_eq x (Some i) = (x = Some i)"
  by (cases x) auto

lemma insert_qr_created:
  assumes "insert_qr fk env s base userId u body = (Json 201 (CreatedJson c link u' t), s')"
  shows "u' = u \<and> c = nanoid env (draws s) \<and> c \<notin> set (map short_code (qr_codes s))
       \<and> qr_codes s' = qr_codes s @
            [\<lparr>short_code = c, destination_url = u, user_id = userId,
              scan_count = 0, created_at = datetime_now env, last_scanned_at = None,
              expires_at = or_null (body_expiresAt body),
              password = map_option (hashSync env) (or_null (body_password body)),
              is_active = True\<rparr>]"
proof (cases "nanoid env (draws s) \<in> set (map short_code (qr_codes s))")
  case True
  with assms show ?thesis by (simp add: insert_qr_collision)
next
  case False
  show ?thesis
  proof (cases "fk \<and> owner_missing (users s) userId")
    case True
    with assms show ?thesis by (simp add: insert_qr_orphan)
  next
    case ok: False
    with assms False show ?thesis by (auto simp: insert_qr_fresh)
  qed
qed

lemma express_post_qr_created:
  assumes "express_post_qr env s a body = (Json 201 (CreatedJson c link u t), s')"
  shows "body_url body = Some u \<and> u \<noteq> []
       \<and> (URL_protocol env u = Some ''http:'' \<or> URL_protocol env u = Some ''https:'')
       \<and> length u \<le> 2048
       \<and> insert_qr True env s (BASE_URL env) (userId_of a) u body
           = (Json 201 (CreatedJson c link u t), s')"
proof -
  from assms obtain v where v: "body_url body = Some v" "v \<noteq> []"
    by (auto simp: express_post_qr_def split: option.splits if_splits)
  from assms v obtain p where p: "URL_protocol env v = Some p" "p = ''http:'' \<or> p = ''https:''"
    "length v \<le> 2048"
    by (auto simp: express_post_qr_def split: option.splits if_splits)
  have valid: "URL_protocol env v = Some ''http:'' \<or> URL_protocol env v = Some ''https:''"
    using p by auto
  have ins: "insert_qr True env s (BASE_URL env) (userId_of a) v body
           = (Json 201 (CreatedJson c link u t), s')"
    using assms express_post_qr_valid [OF v valid p(3), of s a]
    by (auto simp: express_quota_def split: option.splits if_splits)
  from insert_qr_created [OF ins] have "u = v" by simp
  with v valid p ins show ?thesis by simp
qed

lemma next_POST_qr_created:
  assumes "next_POST_qr env s baseUrl a body = (Json 201 (CreatedJson c link u t), s')"
  shows "body_url body = Some u \<and> u \<noteq> []
       \<and> (URL_protocol env u = Some ''http:'' \<or> URL_protocol env u = Some ''https:'')
       \<and> length u \<le> 2048
       \<and> insert_qr (foreign_keys env) env s baseUrl (userId_of a) u body
           = (Json 201 (CreatedJson c link u t), s')"
proof -
  from assms obtain v where v: "body_url body = Some v" "v \<noteq> []"
    by (auto simp: next_POST_qr_def split: option.splits if_splits)
  from assms v obtain p where p: "URL_protocol env v = Some p" "p = ''http:'' \<or> p = ''https:''"
    "length v \<le> 2048"
    by (auto simp: next_POST_qr_def split: option.splits if_splits)
  have valid: "URL_protocol env v = Some ''http:'' \<or> URL_protocol env v = Some ''https:''"
    using p by auto
  have ins: "insert_qr (foreign_keys env) env s baseUrl (userId_of a) v body
           = (Json 201 (CreatedJson c link u t), s')"
    using assms next_POST_qr_valid [OF v valid p(3), of s baseUrl a]
    by (auto simp: next_quota_def split: option.splits if_splits)
  from insert_qr_created [OF ins] have "u = v" by simp
  with v valid p ins show ?thesis by simp
qed










section \<open>Which destinations the handlers let in\<close>

lemma put_qr_owner:
  assumes "distinct (map short_code (qr_codes s))" and "r \<in> set (qr_codes s)"
    and "user_id r = Some uid" and "u \<noteq> []" and "URL_protocol env u = Some p"
  shows "fst (put_qr env s uid (short_code r) (Some u)) = Json 200 (UpdatedJson (short_code r) u)
       \<and> getStats (qr_codes (snd (put_qr env s uid (short_code r) (Some u)))) (short_code r)
           = Some (r\<lparr>destination_url := u\<rparr>)"
proof -
  obtain n tbl where upd: "updateDestination (qr_codes s) u (short_code r) (Some uid) = (n, tbl)"
    by (cases "updateDestination (qr_codes s) u (short_code r) (Some uid)")
  from updateDestination_member [OF assms(1,2), of u "Some uid"] upd assms(3)
  have "n = 1" and "getStats tbl (short_code r) = Some (r\<lparr>destination_url := u\<rparr>)"
    by simp_all
  with upd assms(4,5) show ?thesis by (simp add: put_qr_def)
qed

lemma getStats_appended:
  "c \<notin> set (map short_code tbl) \<Longrightarrow> short_code row = c \<Longrightarrow>
   getStats (tbl @ [row]) c = Some row"
  unfolding getStats_def by (induction tbl) auto

lemma created_destination_is_http:
  "(express_post_qr env s a body = (Json 201 (CreatedJson c link u t), s')
    \<or> next_POST_qr env s baseUrl a body = (Json 201 (CreatedJson c link u t), s')) \<Longrightarrow>
   (URL_protocol env u = Some ''http:'' \<or> URL_protocol env u = Some ''https:'')
   \<and> length u \<le> 2048
   \<and> (\<exists>row. getStats (qr_codes s') c = Some row \<and> destination_url row = u)"
proof -
  assume "express_post_qr env s a body = (Json 201 (CreatedJson c link u t), s')
    \<or> next_POST_qr env s baseUrl a body = (Json 201 (CreatedJson c link u t), s')"
  then obtain fk base where valid:
      "URL_protocol env u = Some ''http:'' \<or> URL_protocol env u = Some ''https:''"
      "length u \<le> 2048"
    and ins: "insert_qr fk env s base (userId_of a) u body = (Json 201 (CreatedJson c link u t), s')"
    using express_post_qr_created [of env s a body c link u t s']
      next_POST_qr_created [of env s baseUrl a body c link u t s']
    by blast
  from insert_qr_created [OF ins]
  have fresh: "c \<notin> set (map short_code (qr_codes s))"
    and tbl: "\<exists>row. qr_codes s' = qr_codes s @ [row] \<and> short_code row = c \<and> destination_url row = u"
    by auto
  then obtain row where row: "qr_codes s' = qr_codes s @ [row]" "short_code row = c"
    "destination_url row = u"
    by blast
  have "getStats (qr_codes s @ [row]) c = Some row"
    by (rule getStats_appended [OF fresh row(2)])
  with valid row show ?thesis by auto
qed

text \<open>
  Claim C3 holds for creation (\<open>created_destination_is_http\<close>: a created row's destination
  has protocol http or https and at most 2048 characters) and fails for the update handlers,
  which only ask that the new URL parses. For the owner of a stored code, any non-empty URL
  that \<open>new URL\<close> accepts, whatever its protocol and its length, is answered with 200 and
  becomes the stored destination, in both servers.
\<close>

theorem update_accepts_any_parseable_url:
  assumes "distinct (map short_code (qr_codes s))" and "r \<in> set (qr_codes s)"
    and "user_id r = Some uid" and "u \<noteq> []" and "URL_protocol env u = Some p"
  shows "fst (express_put_qr env s (Verified uid) (short_code r) (Some u))
           = Json 200 (UpdatedJson (short_code r) u)
       \<and> getStats (qr_codes (snd (express_put_qr env s (Verified uid) (short_code r) (Some u))))
            (short_code r) = Some (r\<lparr>destination_url := u\<rparr>)
       \<and> fst (next_PUT_qr env s (Verified uid) (short_code r) (Some u))
           = Json 200 (UpdatedJson (short_code r) u)
       \<and> getStats (qr_codes (snd (next_PUT_qr env s (Verified uid) (short_code r) (Some u))))
            (short_code r) = Some (r\<lparr>destination_url := u\<rparr>)"
  using put_qr_owner [OF assms] by (simp add: express_put_qr_def next_PUT_qr_def)

text \<open>User 1 points the code \<open>V1StGXR8\<close> at an ftp URL.\<close>

theorem update_accepts_any_parseable_url_witness:
  "URL_protocol demo_env ''ftp://example.com/menu'' = Some ''ftp:''
   \<and> fst (express_put_qr demo_env demo_server (Verified 1) ''V1StGXR8'' (Some ''ftp://example.com/menu''))
       = Json 200 (UpdatedJson ''V1StGXR8'' ''ftp://example.com/menu'')
   \<and> getStats (qr_codes (snd (express_put_qr demo_env demo_server (Verified 1) ''V1StGXR8''
         (Some ''ftp://example.com/menu'')))) ''V1StGXR8''
       = Some (locked_row\<lparr>destination_url := ''ftp://example.com/menu''\<rparr>)
   \<and> getStats (qr_codes (snd (next_PUT_qr demo_env demo_server (Verified 1) ''V1StGXR8''
         (Some ''ftp://example.com/menu'')))) ''V1StGXR8''
       = Some (locked_row\<lparr>destination_url := ''ftp://example.com/menu''\<rparr>)"
proof -
  have d: "distinct (map short_code (qr_codes demo_server))"
    by (simp add: demo_defs)
  have m: "locked_row \<in> set (qr_codes demo_server)"
    by (simp add: demo_defs)
  have row: "short_code locked_row = ''V1StGXR8''" and own: "user_id locked_row = Some 1"
    by (simp_all add: locked_row_def)
  have p: "URL_protocol demo_env ''ftp://example.com/menu'' = Some ''ftp:''"
    by (simp add: demo_env_def)
  show ?thesis
    using update_accepts_any_parseable_url [OF d m own _ p] p
    unfolding row by simp
qed

section \<open>What the plan check counts\<close>

lemma insert_qr_not_403:
  "fst (insert_qr fk env s base userId u body) \<noteq> Json 403 x"
  by (simp add: insert_qr_def Let_def split: sum.splits)

text \<open>
  Claim C2 fails in the Express server and holds in the Next.js route. For a valid request
  of an existing user with a non-zero id, the Express handler answers 403 with the upgrade
  hint exactly when the number of all rows of that user, deactivated ones included, is at or
  above the plan's limit; the Next.js handler answers so exactly when the number of the
  user's active rows is.
\<close>

theorem express_quota_counts_deactivated_codes:
  assumes "body_url body = Some u" and "u \<noteq> []"
    and "URL_protocol env u = Some ''http:'' \<or> URL_protocol env u = Some ''https:''"
    and "length u \<le> 2048"
    and "findUserById (users s) i = Some user" and "i \<noteq> 0"
  shows "(fst (express_post_qr env s (Verified i) body)
            = Json 403 (UpgradeJson (limit_of_plan (plan user))))
         = count_ge (length (filter (\<lambda>r. user_id r = Some i) (qr_codes s)))
             (limit_of_plan (plan user))
       \<and> (fst (next_POST_qr env s baseUrl (Verified i) body)
            = Json 403 (UpgradeJson (limit_of_plan (plan user))))
         = count_ge (length (filter (\<lambda>r. user_id r = Some i \<and> is_active r) (qr_codes s)))
             (limit_of_plan (plan user))"
  using assms
  by (simp add: express_post_qr_valid next_POST_qr_valid express_quota_def next_quota_def
      stmts_countUserQRs_def countUserQRs_def sql_eq_Some insert_qr_not_403)

text \<open>
  A free user whose two codes are both deactivated: no active code, refused by the Express
  server, not refused by the Next.js route.
\<close>

theorem express_quota_counts_deactivated_codes_witness:
  "countUserQRs (qr_codes retired_server) (Some 1) = 0
   \<and> fst (express_post_qr demo_env retired_server (Verified 1) demo_body)
       = Json 403 (UpgradeJson (Num 2))
   \<and> fst (next_POST_qr demo_env retired_server ''https://linktoqr.example'' (Verified 1) demo_body)
       \<noteq> Json 403 (UpgradeJson (Num 2))"
proof -
  have u: "body_url demo_body = Some ''https://example.com/menu''"
    by (simp add: demo_defs)
  have p: "URL_protocol demo_env ''https://example.com/menu'' = Some ''http:''
           \<or> URL_protocol demo_env ''https://example.com/menu'' = Some ''https:''"
    by (simp add: demo_defs)
  have usr: "findUserById (users retired_server) 1
      = Some \<lparr>id_users = 1, email = ''owner@example.com'', plan = ''free''\<rparr>"
    by (simp add: findUserById_def demo_defs)
  have lim: "limit_of_plan ''free'' = Num 2"
    by (simp add: limit_of_plan_def PLAN_LIMITS_def)
  have all: "length (filter (\<lambda>r. user_id r = Some 1) (qr_codes retired_server)) = 2"
    by (simp add: demo_defs)
  have act: "length (filter (\<lambda>r. user_id r = Some 1 \<and> is_active r) (qr_codes retired_server)) = 0"
    by (simp add: demo_defs)
  have cnt: "countUserQRs (qr_codes retired_server) (Some 1) = 0"
    by (simp add: countUserQRs_def demo_defs)
  show ?thesis
    using express_quota_counts_deactivated_codes [OF u _ p _ usr, of "''https://linktoqr.example''"]
      cnt
    unfolding all act by (simp add: lim)
qed

section \<open>The codes of a table stay unique\<close>

text \<open>
  The hypothesis \<open>distinct (map short_code tbl)\<close> of the theorems above is the \<open>UNIQUE\<close>
  constraint of the column. It holds of the empty table and every statement and handler
  keeps it: an insert of a code that is present fails, and no update touches \<open>short_code\<close>.
\<close>

lemma createQR_distinct:
  "distinct (map short_code tbl) \<Longrightarrow> createQR fk us now tbl c u uid e p = Inr tbl' \<Longrightarrow>
   distinct (map short_code tbl')"
  by (auto simp: createQR_def split: if_splits)

lemma short_codes_unchanged:
  "map short_code (snd (stmts_incrementScan now tbl code)) = map short_code tbl"
  "map short_code (incrementScan tbl code) = map short_code tbl"
  "map short_code (snd (updateDestination tbl url code userId)) = map short_code tbl"
  "map short_code (snd (deleteQR tbl code userId)) = map short_code tbl"
  by (simp_all add: stmts_incrementScan_def incrementScan_def updateDestination_def deleteQR_def
      comp_def if_distrib [of short_code] cong: if_cong)

lemma redirect_handlers_keep_codes:
  "map short_code (qr_codes (snd (express_get_r env s code pw))) = map short_code (qr_codes s)"
  "map short_code (qr_codes (snd (next_GET_r env s code cred))) = map short_code (qr_codes s)"
  by (simp_all add: express_get_r_def next_GET_r_def short_codes_unchanged
      split: option.splits pw_check.splits)

lemma put_delete_keep_codes:
  "map short_code (qr_codes (snd (put_qr env s uid code url))) = map short_code (qr_codes s)"
  "map short_code (qr_codes (snd (delete_qr s uid code))) = map short_code (qr_codes s)"
proof -
  show "map short_code (qr_codes (snd (put_qr env s uid code url))) = map short_code (qr_codes s)"
  proof (cases url)
    case None
    then show ?thesis by (simp add: put_qr_def)
  next
    case (Some u)
    obtain n tbl where upd: "updateDestination (qr_codes s) u code (Some uid) = (n, tbl)"
      by (cases "updateDestination (qr_codes s) u code (Some uid)")
    then have "map short_code tbl = map short_code (qr_codes s)"
      using short_codes_unchanged(3) [of "qr_codes s" u code "Some uid"] by simp
    then show ?thesis using Some upd by (simp add: put_qr_def split: option.splits)
  qed
  obtain n tbl where del: "deleteQR (qr_codes s) code (Some uid) = (n, tbl)"
    by (cases "deleteQR (qr_codes s) code (Some uid)")
  then have "map short_code tbl = map short_code (qr_codes s)"
    using short_codes_unchanged(4) [of "qr_codes s" code "Some uid"] by simp
  then show "map short_code (qr_codes (snd (delete_qr s uid code))) = map short_code (qr_codes s)"
    using del by (simp add: delete_qr_def)
qed

lemma insert_qr_distinct:
  "distinct (map short_code (qr_codes s)) \<Longrightarrow>
   distinct (map short_code (qr_codes (snd (insert_qr fk env s base userId u body))))"
  by (cases "nanoid env (draws s) \<in> set (map short_code (qr_codes s))";
      cases "fk \<and> owner_missing (users s) userId")
     (auto simp: insert_qr_collision insert_qr_fresh insert_qr_orphan)

lemma creation_handlers_keep_codes_unique:
  assumes "distinct (map short_code (qr_codes s))"
  shows "distinct (map short_code (qr_codes (snd (express_post_qr env s a body))))"
    and "distinct (map short_code (qr_codes (snd (next_POST_qr env s baseUrl a body))))"
  using assms insert_qr_distinct [OF assms]
  by (auto simp: express_post_qr_def next_POST_qr_def split: option.splits)

end
